theory Spec2Isabelle
  imports Main "HOL-Library.Sublist"
begin

section \<open>The environment configuration of the coffee-shop front end\<close>

text \<open>
  The repository fragment holds two files, each exporting one object literal under the
  name \<open>environment\<close>: \<^verbatim>\<open>frontend/src/environments/environment.prod.ts\<close> (the first
  variant) and a second file whose name is not known (the second variant). Both literals
  are embedded as they are written: an object is the list of its \<open>key: value\<close> entries
  in source order, a leaf is a boolean or a string literal.
\<close>

subsection \<open>Values of an object literal\<close>

datatype js_value =
    JBool bool
  | JString string
  | JObject "(string \<times> js_value) list"

text \<open>The two source files that export \<open>environment\<close>.\<close>

datatype source_file = Environment_prod | Unnamed_part_000

fun environment :: "source_file \<Rightarrow> js_value" where
  "environment Environment_prod =
     JObject
       [(''production'', JBool True),
        (''apiServerUrl'', JString ''https://coffee-shop-backend.onrender.com/''),
        (''auth0'',
           JObject
             [(''url'', JString ''amrikhudair.eu''),
              (''audience'', JString ''https://coffee-shop.test''),
              (''clientId'', JString ''6foUBjR8Uys0PRrhAEVJ5BF6lltFsYBX''),
              (''callbackURL'', JString ''http://localhost:8100'')])]"
| "environment Unnamed_part_000 =
     JObject
       [(''production'', JBool True),
        (''apiServerUrl'', JString ''https://coffee-shop-backend.onrender.com/''),
        (''auth0'',
           JObject
             [(''url'', JString ''amrikhudair.eu''),
              (''audience'', JString ''https://coffee-shop-delta.vercel.app''),
              (''clientId'', JString ''6foUBjR8Uys0PRrhAEVJ5BF6lltFsYBX''),
              (''callbackURL'', JString ''https://coffee-shop-delta.vercel.app'')])]"

subsection \<open>Field access\<close>

text \<open>
  \<open>get_prop v k\<close> is the member access \<open>v.k\<close> for a key written in the literal. Where a
  key is written twice in an object literal the later entry wins, hence the reversal.
  \<open>None\<close> stands for every access that does not reach a written value: a key the
  object does not have (JavaScript yields \<open>undefined\<close>, and throws a TypeError on a
  member access below it) and a member access below a boolean or string leaf.
\<close>

fun get_prop :: "js_value \<Rightarrow> string \<Rightarrow> js_value option" where
  "get_prop (JObject kvs) k = map_of (rev kvs) k"
| "get_prop (JBool b) k = None"
| "get_prop (JString s) k = None"

text \<open>A chain of member accesses, \<open>v.k1.k2\<close> and so on.\<close>

fun get_path :: "js_value \<Rightarrow> string list \<Rightarrow> js_value option" where
  "get_path v [] = Some v"
| "get_path v (k # ks) =
     (case get_prop v k of None \<Rightarrow> None | Some w \<Rightarrow> get_path w ks)"

text \<open>The string stored at a path, when the path leads to a string leaf.\<close>

definition string_at :: "js_value \<Rightarrow> string list \<Rightarrow> string option" where
  "string_at v p = (case get_path v p of Some (JString s) \<Rightarrow> Some s | _ \<Rightarrow> None)"

text \<open>
  The key paths of a literal, in source order: one path for every leaf, each path the
  keys from the root down to the leaf.
\<close>

fun leaf_paths :: "js_value \<Rightarrow> string list list"
  and entry_paths :: "(string \<times> js_value) list \<Rightarrow> string list list" where
  "leaf_paths (JBool b) = [[]]"
| "leaf_paths (JString s) = [[]]"
| "leaf_paths (JObject kvs) = entry_paths kvs"
| "entry_paths [] = []"
| "entry_paths ((k, v) # kvs) = map ((#) k) (leaf_paths v) @ entry_paths kvs"

text \<open>
  The shape of a literal: its keys and nesting, with every leaf value replaced by its
  type.
\<close>

datatype js_shape =
    SBool
  | SString
  | SObject "(string \<times> js_shape) list"

fun shape_of :: "js_value \<Rightarrow> js_shape"
  and entry_shapes :: "(string \<times> js_value) list \<Rightarrow> (string \<times> js_shape) list" where
  "shape_of (JBool b) = SBool"
| "shape_of (JString s) = SString"
| "shape_of (JObject kvs) = SObject (entry_shapes kvs)"
| "entry_shapes [] = []"
| "entry_shapes ((k, v) # kvs) = (k, shape_of v) # entry_shapes kvs"

subsection \<open>Absolute URLs\<close>

text \<open>
  The source holds no URL parser; the strings are handed to an HTTP client and to an
  identity-provider library. To state that a stored string is an absolute URL, the
  following recogniser accepts \<open>scheme "://" host [":" port] path\<close>, a sub-grammar of
  the absolute URIs of RFC 3986 (no user information, no percent-encoding, no IP
  literal, no query, no fragment): every string it accepts is an absolute URI.
\<close>

definition is_alpha :: "char \<Rightarrow> bool" where
  "is_alpha c =
     (let n = of_char c :: nat in (65 \<le> n \<and> n \<le> 90) \<or> (97 \<le> n \<and> n \<le> 122))"

definition is_digit :: "char \<Rightarrow> bool" where
  "is_digit c = (let n = of_char c :: nat in 48 \<le> n \<and> n \<le> 57)"

definition is_scheme_char :: "char \<Rightarrow> bool" where
  "is_scheme_char c = (is_alpha c \<or> is_digit c \<or> c \<in> set ''+-.'')"

definition is_host_char :: "char \<Rightarrow> bool" where
  "is_host_char c = (is_alpha c \<or> is_digit c \<or> c \<in> set ''-.'')"

definition is_path_char :: "char \<Rightarrow> bool" where
  "is_path_char c = (is_alpha c \<or> is_digit c \<or> c \<in> set ''-._~!$&()*+,;=:@/'')"

text \<open>
  A scheme is a letter followed by letters, digits, \<open>+\<close>, \<open>-\<close> and \<open>.\<close>, and ends at a
  colon. The result is the scheme and what follows the colon.
\<close>

definition parse_scheme :: "string \<Rightarrow> (string \<times> string) option" where
  "parse_scheme s =
     (case s of
        [] \<Rightarrow> None
      | c # cs \<Rightarrow>
          if is_alpha c then
            (case dropWhile is_scheme_char cs of
               [] \<Rightarrow> None
             | d # r \<Rightarrow>
                 if d = CHR '':'' then Some (c # takeWhile is_scheme_char cs, r) else None)
          else None)"

text \<open>A host-like token: one or more letters, digits, hyphens and dots.\<close>

definition host_like :: "string \<Rightarrow> bool" where
  "host_like s = (s \<noteq> [] \<and> list_all is_host_char s)"

text \<open>An optional port: a colon and the digits after it.\<close>

definition parse_port :: "string \<Rightarrow> string option \<times> string" where
  "parse_port r =
     (case r of
        [] \<Rightarrow> (None, [])
      | c # cs \<Rightarrow>
          if c = CHR '':'' then (Some (takeWhile is_digit cs), dropWhile is_digit cs)
          else (None, c # cs))"

text \<open>A path is empty or starts with a slash.\<close>

definition is_path :: "string \<Rightarrow> bool" where
  "is_path r = (case r of [] \<Rightarrow> True | c # cs \<Rightarrow> c = CHR ''/'' \<and> list_all is_path_char cs)"

record url =
  url_scheme :: string
  url_host :: string
  url_port :: "string option"
  url_path :: string

definition parse_url :: "string \<Rightarrow> url option" where
  "parse_url s =
     (case parse_scheme s of
        None \<Rightarrow> None
      | Some (sch, r) \<Rightarrow>
          (case r of
             c1 # c2 # r' \<Rightarrow>
               if c1 = CHR ''/'' \<and> c2 = CHR ''/'' then
                 (let h = takeWhile is_host_char r';
                      (p, rest) = parse_port (dropWhile is_host_char r')
                  in if host_like h \<and> is_path rest
                     then Some \<lparr>url_scheme = sch, url_host = h, url_port = p, url_path = rest\<rparr>
                     else None)
               else None
           | _ \<Rightarrow> None))"

text \<open>The URL stored at a path, when the path leads to a string that is one.\<close>

definition url_at :: "js_value \<Rightarrow> string list \<Rightarrow> url option" where
  "url_at v p = (case string_at v p of None \<Rightarrow> None | Some s \<Rightarrow> parse_url s)"

lemmas url_defs =
  url_at_def parse_url_def parse_scheme_def parse_port_def is_path_def host_like_def
  is_alpha_def is_digit_def is_scheme_char_def is_host_char_def is_path_char_def

section \<open>Properties\<close>

text \<open>
  The recogniser is not vacuous: it rejects a bare host name, a scheme without an
  authority, an empty host, a host with a space in it and a path that does not start
  with a slash.
\<close>

lemma parse_url_rejects_malformed:
  "parse_url ''amrikhudair.eu'' = None"
  "parse_url ''https:/coffee-shop.test'' = None"
  "parse_url ''https://'' = None"
  "parse_url ''http://local host:8100'' = None"
  "parse_url ''http://localhost:8100?x'' = None"
  "parse_url ''//localhost:8100'' = None"
  by (simp_all add: url_defs)

text \<open>
  Claim C1. Loading the first variant yields the API server URL
  \<open>https://coffee-shop-backend.onrender.com/\<close>; loading the second variant yields the
  same API server URL and the callback URL \<open>https://coffee-shop-delta.vercel.app\<close>.
\<close>

theorem load_scenario:
  "string_at (environment Environment_prod) [''apiServerUrl'']
     = Some ''https://coffee-shop-backend.onrender.com/''
   \<and> string_at (environment Unnamed_part_000) [''apiServerUrl'']
     = Some ''https://coffee-shop-backend.onrender.com/''
   \<and> string_at (environment Unnamed_part_000) [''auth0'', ''callbackURL'']
     = Some ''https://coffee-shop-delta.vercel.app''"
  by (simp add: string_at_def)

text \<open>
  Claim C2. In every variant the API server URL is a well-formed absolute URL with the
  scheme \<open>https\<close>, and the audience and the callback URL are well-formed absolute URLs.
\<close>

theorem urls_well_formed:
  "map_option url_scheme (url_at (environment f) [''apiServerUrl'']) = Some ''https''
   \<and> url_at (environment f) [''auth0'', ''audience''] \<noteq> None
   \<and> url_at (environment f) [''auth0'', ''callbackURL''] \<noteq> None"
  by (cases f) (simp_all add: url_defs string_at_def)

text \<open>
  Claim C3. In every variant all six fields are present, and each of the five string
  fields holds a non-empty string.
\<close>

theorem fields_present_and_nonempty:
  "list_all (\<lambda>p. get_path (environment f) p \<noteq> None)
     [[''production''], [''apiServerUrl''], [''auth0'', ''url''], [''auth0'', ''audience''],
      [''auth0'', ''clientId''], [''auth0'', ''callbackURL'']]
   \<and> list_all (\<lambda>p. \<exists>s. string_at (environment f) p = Some s \<and> s \<noteq> [])
     [[''apiServerUrl''], [''auth0'', ''url''], [''auth0'', ''audience''],
      [''auth0'', ''clientId''], [''auth0'', ''callbackURL'']]"
  by (cases f) (simp_all add: string_at_def)

text \<open>
  Claim C4. The two variants have the same keys and nesting; they differ in the values
  of the audience and of the callback URL and in no other field.
\<close>

theorem variants_differ_only_in_audience_and_callback:
  "shape_of (environment Environment_prod) = shape_of (environment Unnamed_part_000)
   \<and> leaf_paths (environment Environment_prod) =
       [[''production''], [''apiServerUrl''], [''auth0'', ''url''], [''auth0'', ''audience''],
        [''auth0'', ''clientId''], [''auth0'', ''callbackURL'']]
   \<and> leaf_paths (environment Unnamed_part_000) = leaf_paths (environment Environment_prod)
   \<and> filter (\<lambda>p. get_path (environment Environment_prod) p
                   \<noteq> get_path (environment Unnamed_part_000) p)
        (leaf_paths (environment Environment_prod))
       = [[''auth0'', ''audience''], [''auth0'', ''callbackURL'']]
   \<and> list_all (\<lambda>p. get_path (environment Environment_prod) p
                     = get_path (environment Unnamed_part_000) p)
        [[''production''], [''apiServerUrl''], [''auth0'', ''url''], [''auth0'', ''clientId'']]"
  by simp

text \<open>
  Claim C5. In every variant the identity-provider domain \<open>auth0.url\<close> is a host-like
  token without a scheme: no scheme can be read off its front, and it starts with
  neither \<open>http://\<close> nor \<open>https://\<close>.
\<close>

theorem auth0_url_has_no_scheme:
  "\<exists>s. string_at (environment f) [''auth0'', ''url''] = Some s
       \<and> host_like s \<and> parse_scheme s = None
       \<and> \<not> prefix ''http://'' s \<and> \<not> prefix ''https://'' s"
  by (cases f) (simp_all add: url_defs string_at_def)

text \<open>
  Claim C6. In every variant the field \<open>production\<close> is a boolean and its value is true.
\<close>

theorem production_is_true:
  "get_path (environment f) [''production''] = Some (JBool True)"
  by (cases f) simp_all

text \<open>
  Claim C7. No field access fails: in each variant each of the six accesses returns the
  literal written in the source. Nothing is checked on the way: a record of the same
  keys returns whatever values it holds, well formed or not.
\<close>

theorem field_access_total:
  "map (get_path (environment Environment_prod))
     [[''production''], [''apiServerUrl''], [''auth0'', ''url''], [''auth0'', ''audience''],
      [''auth0'', ''clientId''], [''auth0'', ''callbackURL'']]
     = [Some (JBool True),
        Some (JString ''https://coffee-shop-backend.onrender.com/''),
        Some (JString ''amrikhudair.eu''),
        Some (JString ''https://coffee-shop.test''),
        Some (JString ''6foUBjR8Uys0PRrhAEVJ5BF6lltFsYBX''),
        Some (JString ''http://localhost:8100'')]
   \<and> map (get_path (environment Unnamed_part_000))
     [[''production''], [''apiServerUrl''], [''auth0'', ''url''], [''auth0'', ''audience''],
      [''auth0'', ''clientId''], [''auth0'', ''callbackURL'']]
     = [Some (JBool True),
        Some (JString ''https://coffee-shop-backend.onrender.com/''),
        Some (JString ''amrikhudair.eu''),
        Some (JString ''https://coffee-shop-delta.vercel.app''),
        Some (JString ''6foUBjR8Uys0PRrhAEVJ5BF6lltFsYBX''),
        Some (JString ''https://coffee-shop-delta.vercel.app'')]
   \<and> map (get_path
            (JObject
               [(''production'', b),
                (''apiServerUrl'', a),
                (''auth0'',
                   JObject
                     [(''url'', u), (''audience'', d), (''clientId'', c),
                      (''callbackURL'', r)])]))
     [[''production''], [''apiServerUrl''], [''auth0'', ''url''], [''auth0'', ''audience''],
      [''auth0'', ''clientId''], [''auth0'', ''callbackURL'']]
     = [Some b, Some a, Some u, Some d, Some c, Some r]"
  by simp

text \<open>
  Claim C9. In the second variant the audience and the callback URL are the same string,
  \<open>https://coffee-shop-delta.vercel.app\<close>; in the first variant they are different.
\<close>

theorem audience_versus_callback:
  "string_at (environment Unnamed_part_000) [''auth0'', ''audience'']
     = Some ''https://coffee-shop-delta.vercel.app''
   \<and> string_at (environment Unnamed_part_000) [''auth0'', ''callbackURL'']
     = Some ''https://coffee-shop-delta.vercel.app''
   \<and> string_at (environment Environment_prod) [''auth0'', ''audience'']
     \<noteq> string_at (environment Environment_prod) [''auth0'', ''callbackURL'']"
  by (simp add: string_at_def)

text \<open>
  Claim C10. In the first variant the callback URL is exactly \<open>http://localhost:8100\<close>:
  its scheme is \<open>http\<close>, not \<open>https\<close>, and its host is \<open>localhost\<close>, while the
  production flag of that variant is true.
\<close>

theorem first_variant_callback_is_localhost:
  "string_at (environment Environment_prod) [''auth0'', ''callbackURL'']
     = Some ''http://localhost:8100''
   \<and> url_at (environment Environment_prod) [''auth0'', ''callbackURL'']
     = Some \<lparr>url_scheme = ''http'', url_host = ''localhost'',
             url_port = Some ''8100'', url_path = []\<rparr>
   \<and> map_option url_scheme (url_at (environment Environment_prod) [''auth0'', ''callbackURL''])
     \<noteq> Some ''https''
   \<and> get_path (environment Environment_prod) [''production''] = Some (JBool True)"
  by (simp add: url_defs string_at_def)

end
